theory Spec2Isabelle
  imports Main "HOL-Library.Word"
begin

unbundle bit_operations_syntax

section \<open>Data model of knot\_resolver.h\<close>

type_synonym byte = "8 word"

text \<open>
  \<^verbatim>\<open>knot_resolve_result_t\<close>. The two owned buffers \<^verbatim>\<open>wire\<close> and \<^verbatim>\<open>error_msg\<close> are
  pointers that may be \<^verbatim>\<open>NULL\<close>: \<open>None\<close> is the null pointer, \<open>Some\<close> carries the content
  of the buffer.
\<close>

record knot_resolve_result =
  wire :: "byte list option"
  wire_size :: nat
  rcode :: int
  secure :: bool
  bogus :: bool
  error_msg :: "string option"

text \<open>
  \<^verbatim>\<open>knot_resolver_t\<close>. The field \<^verbatim>\<open>mm\<close> is the allocator handle given to libknot; what the
  allocator answers is part of the environment below.
\<close>

record knot_resolver =
  dnssec_enabled :: bool
  timeout_ms :: "32 word"
  root_hints :: "string option"

section \<open>Static tables\<close>

text \<open>The \<^verbatim>\<open>NULL\<close>-terminated array \<^verbatim>\<open>root_servers\<close>.\<close>

definition root_servers :: "string option list" where
  "root_servers =
    [Some ''198.41.0.4'', Some ''199.9.14.201'', Some ''192.33.4.12'', Some ''199.7.91.13'',
     Some ''192.203.230.10'', Some ''192.5.5.241'', Some ''192.112.36.4'', Some ''198.97.190.53'',
     Some ''192.36.148.17'', Some ''192.58.128.30'', Some ''193.0.14.129'', Some ''199.7.83.42'',
     Some ''202.12.27.33'', None]"

text \<open>The arrays \<^verbatim>\<open>qtype_map\<close> and \<^verbatim>\<open>qclass_map\<close>, each closed by the entry \<^verbatim>\<open>{ 0, NULL }\<close>.\<close>

definition qtype_map :: "(16 word \<times> string option) list" where
  "qtype_map =
    [(1, Some ''A''), (2, Some ''NS''), (5, Some ''CNAME''), (6, Some ''SOA''),
     (12, Some ''PTR''), (15, Some ''MX''), (16, Some ''TXT''), (28, Some ''AAAA''),
     (33, Some ''SRV''), (43, Some ''DS''), (46, Some ''RRSIG''), (47, Some ''NSEC''),
     (48, Some ''DNSKEY''), (50, Some ''NSEC3''), (51, Some ''NSEC3PARAM''), (0, None)]"

definition qclass_map :: "(16 word \<times> string option) list" where
  "qclass_map = [(1, Some ''IN''), (3, Some ''CH''), (4, Some ''HS''), (0, None)]"

section \<open>Registry lookups\<close>

text \<open>
  The loop \<^verbatim>\<open>for (int i = 0; map[i].name; i++) if (map[i].code == code) return map[i].name;\<close>
  followed by \<^verbatim>\<open>return "UNKNOWN"\<close>. It ends at the first entry whose name is \<^verbatim>\<open>NULL\<close>; the
  first equation is the end of an array without such an entry, which the two tables never
  reach.
\<close>

fun map_scan :: "(16 word \<times> string option) list \<Rightarrow> 16 word \<Rightarrow> string" where
  "map_scan [] code = ''UNKNOWN''"
| "map_scan ((c, None) # rest) code = ''UNKNOWN''"
| "map_scan ((c, Some name) # rest) code = (if c = code then name else map_scan rest code)"

definition knot_qtype_to_string :: "16 word \<Rightarrow> string" where
  "knot_qtype_to_string qtype = map_scan qtype_map qtype"

definition knot_qclass_to_string :: "16 word \<Rightarrow> string" where
  "knot_qclass_to_string qclass = map_scan qclass_map qclass"

text \<open>The entries of a table that the scan can reach: those before the first \<^verbatim>\<open>NULL\<close> name.\<close>

fun named_entries :: "(16 word \<times> string option) list \<Rightarrow> (16 word \<times> string) list" where
  "named_entries [] = []"
| "named_entries ((c, None) # rest) = []"
| "named_entries ((c, Some name) # rest) = (c, name) # named_entries rest"

section \<open>Environment of one call\<close>

text \<open>
  What the C library and the kernel answer during one call of \<^verbatim>\<open>knot_resolver_resolve\<close>.
  Every request below is made at most once per call (the result constructors exclude each
  other, and no root server occurs twice in the list), so one answer per request site, and
  for a socket one answer per destination, describes every run.
\<close>

datatype recv_outcome =
  RecvFailed \<comment> \<open>\<^verbatim>\<open>recvfrom\<close> returns a negative value (timeout or error)\<close>
| Datagram "byte list" \<comment> \<open>a datagram with this payload arrives\<close>

record socket_outcome =
  socket_ret :: int \<comment> \<open>value of \<^verbatim>\<open>socket(AF_INET, SOCK_DGRAM, 0)\<close>\<close>
  sendto_ret :: int \<comment> \<open>value of \<^verbatim>\<open>sendto\<close>, an \<^verbatim>\<open>ssize_t\<close>\<close>
  recvfrom_ret :: recv_outcome

record sys =
  malloc_result_ok :: bool \<comment> \<open>\<^verbatim>\<open>malloc(sizeof(knot_resolve_result_t))\<close> is not \<^verbatim>\<open>NULL\<close>\<close>
  malloc_wire_ok :: bool \<comment> \<open>\<^verbatim>\<open>malloc(wire_size)\<close> is not \<^verbatim>\<open>NULL\<close>\<close>
  strdup_ok :: bool \<comment> \<open>\<^verbatim>\<open>strdup\<close> is not \<^verbatim>\<open>NULL\<close>\<close>
  rand_ret :: int \<comment> \<open>value of \<^verbatim>\<open>rand()\<close>\<close>
  stack_byte :: "nat \<Rightarrow> byte" \<comment> \<open>indeterminate content of the local array \<^verbatim>\<open>response\<close>\<close>
  udp :: "string \<Rightarrow> 16 word \<Rightarrow> byte list \<Rightarrow> socket_outcome"
    \<comment> \<open>what the kernel does with a query for this address and port\<close>

text \<open>The system calls of one transport attempt, in the order they are made.\<close>

record timeval =
  tv_sec :: int
  tv_usec :: int

datatype syscall =
  Socket
| Setsockopt_RCVTIMEO timeval
| Sendto string "16 word" "byte list"
| Recvfrom nat
| Close

record attempt =
  server :: string
  syscalls :: "syscall list"

section \<open>libknot\<close>

text \<open>
  The message codec is libknot, an external library. The resolver builds its query by a
  fixed sequence of libknot calls; the query packet is kept as the data these calls were
  given, and libknot's answers (allocation, name encoding, wire encoding, parsing, header
  access) are parameters.
\<close>

type_synonym knot_dname = "byte list"

record knot_rrset =
  rr_owner :: "knot_dname option"
  rr_type :: "16 word"
  rr_class :: "16 word"
  rr_ttl :: "32 word"
  rr_rdata :: "byte list list"

record query_pkt =
  q_name :: knot_dname
  q_class :: "16 word"
  q_type :: "16 word"
  hdr_qr :: bool
  hdr_rd :: bool
  hdr_id :: "16 word"
  put_rrs :: "knot_rrset list"

text \<open>
  A parsed response: \<^verbatim>\<open>response_pkt->wire\<close>, \<^verbatim>\<open>response_pkt->size\<close> and the records of
  section \<open>s\<close>, \<^verbatim>\<open>knot_pkt_rr(knot_pkt_section(response_pkt, s), i)\<close> for \<open>i < count\<close>.
\<close>

record response_pkt =
  pkt_wire :: "byte list"
  pkt_size :: nat
  pkt_section :: "nat \<Rightarrow> knot_rrset list"

record libknot =
  query_pkt_new_ok :: bool \<comment> \<open>\<^verbatim>\<open>knot_pkt_new(NULL, 512, mm)\<close> is not \<^verbatim>\<open>NULL\<close>\<close>
  knot_dname_from_str_alloc :: "string \<Rightarrow> knot_dname option"
  knot_pkt_put_question_ok :: "knot_dname \<Rightarrow> 16 word \<Rightarrow> 16 word \<Rightarrow> bool"
    \<comment> \<open>\<^verbatim>\<open>knot_pkt_put_question(pkt, dname, qclass, qtype) == KNOT_EOK\<close>\<close>
  knot_rrset_new_ok :: bool \<comment> \<open>\<^verbatim>\<open>knot_rrset_new(...)\<close> is not \<^verbatim>\<open>NULL\<close>\<close>
  query_wire :: "query_pkt \<Rightarrow> byte list"
    \<comment> \<open>the bytes \<^verbatim>\<open>query_pkt->wire[0 .. query_pkt->size)\<close>\<close>
  response_pkt_new_ok :: bool \<comment> \<open>\<^verbatim>\<open>knot_pkt_new(response, response_len, mm)\<close> is not \<^verbatim>\<open>NULL\<close>\<close>
  knot_pkt_parse :: "byte list \<Rightarrow> response_pkt option"
    \<comment> \<open>\<open>None\<close> when \<^verbatim>\<open>knot_pkt_parse(response_pkt, 0) != KNOT_EOK\<close>\<close>
  knot_wire_get_rcode :: "byte list \<Rightarrow> int"

text \<open>Constants of libknot's headers.\<close>

definition KNOT_RRTYPE_OPT :: "16 word" where "KNOT_RRTYPE_OPT = 41"
definition KNOT_RRTYPE_RRSIG :: "16 word" where "KNOT_RRTYPE_RRSIG = 46"
definition KNOT_PKT_SECTIONS :: nat where "KNOT_PKT_SECTIONS = 3"

section \<open>Result constructors\<close>

definition create_error_result :: "sys \<Rightarrow> string option \<Rightarrow> knot_resolve_result option" where
  "create_error_result S msg =
    (if \<not> malloc_result_ok S then None
     else Some \<lparr>wire = None, wire_size = 0, rcode = 2, secure = False, bogus = False,
                error_msg = (case msg of None \<Rightarrow> None
                             | Some m \<Rightarrow> if strdup_ok S then Some m else None)\<rparr>)"

text \<open>\<^verbatim>\<open>memcpy(result->wire, wire, wire_size)\<close> copies the first \<^verbatim>\<open>wire_size\<close> bytes.\<close>

definition create_success_result ::
  "sys \<Rightarrow> byte list \<Rightarrow> nat \<Rightarrow> int \<Rightarrow> bool \<Rightarrow> bool \<Rightarrow> knot_resolve_result option" where
  "create_success_result S w w_size rc sec bog =
    (if \<not> malloc_result_ok S then None
     else if \<not> malloc_wire_ok S then None
     else Some \<lparr>wire = Some (take w_size w), wire_size = w_size, rcode = rc, secure = sec,
                bogus = bog, error_msg = None\<rparr>)"

section \<open>Transport\<close>

text \<open>
  \<^verbatim>\<open>send_dns_query\<close>. The result is the returned \<^verbatim>\<open>int\<close>, the content of \<^verbatim>\<open>response\<close>, the
  value of \<^verbatim>\<open>*response_len\<close> and the system calls made. \<^verbatim>\<open>sent != query_len\<close> compares an
  \<^verbatim>\<open>ssize_t\<close> with a \<^verbatim>\<open>size_t\<close>, so \<^verbatim>\<open>sent\<close> is converted to 64 bits unsigned. \<^verbatim>\<open>recvfrom\<close>
  stores at most \<^verbatim>\<open>*response_len\<close> bytes of the datagram and returns how many it stored.
\<close>

definition send_dns_query ::
  "sys \<Rightarrow> string \<Rightarrow> 16 word \<Rightarrow> byte list \<Rightarrow> byte list \<Rightarrow> nat \<Rightarrow>
     int \<times> byte list \<times> nat \<times> syscall list" where
  "send_dns_query S server_ip port query response response_len =
    (let k = udp S server_ip port query in
     if socket_ret k < 0 then (- 1, response, response_len, [Socket])
     else
       let opened = [Socket, Setsockopt_RCVTIMEO \<lparr>tv_sec = 5, tv_usec = 0\<rparr>,
                     Sendto server_ip port query] in
       if sendto_ret k mod 2 ^ 64 \<noteq> int (length query)
       then (- 1, response, response_len, opened @ [Close])
       else
         (case recvfrom_ret k of
            RecvFailed \<Rightarrow>
              (- 1, response, response_len, opened @ [Recvfrom response_len, Close])
          | Datagram d \<Rightarrow>
              let received = min (length d) response_len in
              (0, take received d @ drop received response, received,
               opened @ [Recvfrom response_len, Close])))"

section \<open>Resolution\<close>

text \<open>
  The loop over \<^verbatim>\<open>root_servers\<close>: it ends at the \<^verbatim>\<open>NULL\<close> entry, or by \<^verbatim>\<open>break\<close> when
  \<^verbatim>\<open>send_dns_query\<close> returns 0. The result is the attempts made, the content of
  \<^verbatim>\<open>response\<close> and the value of \<^verbatim>\<open>response_len\<close> after the loop.
\<close>

fun try_root_servers ::
  "sys \<Rightarrow> string option list \<Rightarrow> byte list \<Rightarrow> byte list \<Rightarrow> nat \<Rightarrow>
     attempt list \<times> byte list \<times> nat" where
  "try_root_servers S [] query response response_len = ([], response, response_len)"
| "try_root_servers S (None # rest) query response response_len = ([], response, response_len)"
| "try_root_servers S (Some ip # rest) query response response_len =
    (case send_dns_query S ip 53 query response response_len of
       (ret, response', response_len', calls) \<Rightarrow>
         if ret = 0 then ([\<lparr>server = ip, syscalls = calls\<rparr>], response', response_len')
         else
           (case try_root_servers S rest query response' response_len' of
              (atts, response'', response_len'') \<Rightarrow>
                (\<lparr>server = ip, syscalls = calls\<rparr> # atts, response'', response_len'')))"

text \<open>
  The query as \<^verbatim>\<open>recursive_resolve\<close> builds it once the question is in place: header flags,
  transaction id, and the OPT record when \<^verbatim>\<open>knot_rrset_new\<close> gave one.
\<close>

definition build_query :: "sys \<Rightarrow> libknot \<Rightarrow> knot_dname \<Rightarrow> 16 word \<Rightarrow> 16 word \<Rightarrow> query_pkt" where
  "build_query S L dname qtype qclass =
    (let opt_rr = \<lparr>rr_owner = None, rr_type = KNOT_RRTYPE_OPT, rr_class = qclass, rr_ttl = 0,
                   rr_rdata = [[0, 0, 0, 0]]\<rparr> in
     \<lparr>q_name = dname, q_class = qclass, q_type = qtype,
      hdr_qr = False, hdr_rd = True, hdr_id = word_of_int (rand_ret S AND 0xFFFF),
      put_rrs = (if knot_rrset_new_ok L then [opt_rr] else [])\<rparr>)"

text \<open>The scan for RRSIG records: the inner loop over one section, then the loop over sections.\<close>

fun scan_section :: "knot_rrset list \<Rightarrow> bool \<Rightarrow> bool" where
  "scan_section [] sec = sec"
| "scan_section (rr # rrs) sec =
    (if rr_type rr = KNOT_RRTYPE_RRSIG then True else scan_section rrs sec)"

fun scan_sections :: "response_pkt \<Rightarrow> nat list \<Rightarrow> bool \<Rightarrow> bool" where
  "scan_sections pkt [] sec = sec"
| "scan_sections pkt (s # ss) sec =
    (let sec' = scan_section (pkt_section pkt s) sec in
     if sec' then sec' else scan_sections pkt ss sec')"

definition dnssec_scan :: "knot_resolver \<Rightarrow> response_pkt \<Rightarrow> bool" where
  "dnssec_scan resolver pkt =
    (if dnssec_enabled resolver then scan_sections pkt [0..<KNOT_PKT_SECTIONS] False else False)"

definition response_uninit :: "sys \<Rightarrow> byte list" where
  "response_uninit S = map (stack_byte S) [0..<4096]"

text \<open>
  The second half of \<^verbatim>\<open>recursive_resolve\<close>, from the test \<^verbatim>\<open>response_len == 0\<close> to the
  final \<^verbatim>\<open>return\<close>: what becomes of the content of \<^verbatim>\<open>response\<close> and of \<^verbatim>\<open>response_len\<close>
  as the loop left them.
\<close>

definition interpret_response ::
  "sys \<Rightarrow> libknot \<Rightarrow> knot_resolver \<Rightarrow> byte list \<Rightarrow> nat \<Rightarrow> knot_resolve_result option" where
  "interpret_response S L resolver response response_len =
    (if response_len = 0
     then create_error_result S (Some ''No response from root servers'')
     else if \<not> response_pkt_new_ok L
     then create_error_result S (Some ''Failed to create response packet'')
     else
       (case knot_pkt_parse L (take response_len response) of
          None \<Rightarrow> create_error_result S (Some ''Failed to parse response'')
        | Some pkt \<Rightarrow>
            let rc = knot_wire_get_rcode L (pkt_wire pkt);
                sec = dnssec_scan resolver pkt;
                bog = False
            in create_success_result S (pkt_wire pkt) (pkt_size pkt) rc sec bog))"

text \<open>
  \<^verbatim>\<open>recursive_resolve\<close>: the attempts made and the returned pointer (\<open>None\<close> is \<^verbatim>\<open>NULL\<close>).
  \<^verbatim>\<open>response_len\<close> starts as \<^verbatim>\<open>sizeof(response)\<close>, which is 4096.
\<close>

definition recursive_resolve ::
  "sys \<Rightarrow> libknot \<Rightarrow> knot_resolver \<Rightarrow> string \<Rightarrow> 16 word \<Rightarrow> 16 word \<Rightarrow>
     attempt list \<times> knot_resolve_result option" where
  "recursive_resolve S L resolver qname qtype qclass =
    (if \<not> query_pkt_new_ok L
     then ([], create_error_result S (Some ''Failed to create query packet''))
     else
       (case knot_dname_from_str_alloc L qname of
          None \<Rightarrow> ([], create_error_result S (Some ''Invalid domain name''))
        | Some dname \<Rightarrow>
            if \<not> knot_pkt_put_question_ok L dname qclass qtype
            then ([], create_error_result S (Some ''Failed to create query''))
            else
              (case try_root_servers S root_servers
                      (query_wire L (build_query S L dname qtype qclass))
                      (response_uninit S) 4096 of
                 (atts, response, response_len) \<Rightarrow>
                   (atts, interpret_response S L resolver response response_len))))"

text \<open>
  \<^verbatim>\<open>knot_resolver_resolve\<close>, without its debug output: the test \<^verbatim>\<open>!resolver || !qname\<close>,
  then \<^verbatim>\<open>recursive_resolve\<close>.
\<close>

definition knot_resolver_resolve ::
  "sys \<Rightarrow> libknot \<Rightarrow> knot_resolver option \<Rightarrow> string option \<Rightarrow> 16 word \<Rightarrow> 16 word \<Rightarrow>
     attempt list \<times> knot_resolve_result option" where
  "knot_resolver_resolve S L resolver qname qtype qclass =
    (case resolver of
       None \<Rightarrow> ([], create_error_result S (Some ''Invalid parameters''))
     | Some r \<Rightarrow>
         (case qname of
            None \<Rightarrow> ([], create_error_result S (Some ''Invalid parameters''))
          | Some q \<Rightarrow> recursive_resolve S L r q qtype qclass))"

section \<open>Result teardown\<close>

text \<open>\<^verbatim>\<open>knot_resolve_result_free\<close>: the calls of \<^verbatim>\<open>free\<close> it makes, in order.\<close>

datatype released = Wire_buffer "byte list" | Error_message string | Result_struct

definition knot_resolve_result_free :: "knot_resolve_result option \<Rightarrow> released list" where
  "knot_resolve_result_free result =
    (case result of
       None \<Rightarrow> []
     | Some r \<Rightarrow>
         (case wire r of None \<Rightarrow> [] | Some w \<Rightarrow> [Wire_buffer w]) @
         (case error_msg r of None \<Rightarrow> [] | Some m \<Rightarrow> [Error_message m]) @
         [Result_struct])"

section \<open>Derived notions\<close>

text \<open>
  A transport attempt to port 53 succeeds (\<^verbatim>\<open>send_dns_query\<close> returns 0) exactly when the
  socket opens, the whole query is sent and a datagram arrives; this is lemma
  \<open>send_dns_query_ok_iff\<close> below. The payload of the datagram plays no part.
\<close>

definition transport_ok :: "sys \<Rightarrow> byte list \<Rightarrow> string \<Rightarrow> bool" where
  "transport_ok S query ip =
    (let k = udp S ip 53 query in
     0 \<le> socket_ret k \<and> sendto_ret k mod 2 ^ 64 = int (length query) \<and>
     recvfrom_ret k \<noteq> RecvFailed)"

text \<open>The entries of \<^verbatim>\<open>root_servers\<close> before the closing \<^verbatim>\<open>NULL\<close>.\<close>

definition root_server_names :: "string list" where
  "root_server_names = map the (butlast root_servers)"

section \<open>Test environments\<close>

text \<open>
  Concrete environments on which the results below are evaluated: a network on which every
  receive times out, one on which every server answers with a given datagram, and one on
  which only the first root server stays silent; a libknot stand-in that accepts every
  non-empty name and every buffer of at least a header's length, and reports given sections;
  a stricter one that accepts a bare header only; a response header with RCODE 3 and an
  answer section holding one RRSIG record.
\<close>

definition silent_network :: "string \<Rightarrow> 16 word \<Rightarrow> byte list \<Rightarrow> socket_outcome" where
  "silent_network ip port query =
    \<lparr>socket_ret = 3, sendto_ret = int (length query), recvfrom_ret = RecvFailed\<rparr>"

definition answering_network :: "byte list \<Rightarrow> string \<Rightarrow> 16 word \<Rightarrow> byte list \<Rightarrow> socket_outcome" where
  "answering_network d ip port query =
    \<lparr>socket_ret = 3, sendto_ret = int (length query), recvfrom_ret = Datagram d\<rparr>"

definition second_answers :: "byte list \<Rightarrow> string \<Rightarrow> 16 word \<Rightarrow> byte list \<Rightarrow> socket_outcome" where
  "second_answers d ip port query =
    (if ip = ''198.41.0.4'' then silent_network ip port query
     else answering_network d ip port query)"

definition test_sys :: "(string \<Rightarrow> 16 word \<Rightarrow> byte list \<Rightarrow> socket_outcome) \<Rightarrow> sys" where
  "test_sys net =
    \<lparr>malloc_result_ok = True, malloc_wire_ok = True, strdup_ok = True, rand_ret = 4660,
     stack_byte = (\<lambda>i. 0), udp = net\<rparr>"

definition test_knot :: "(nat \<Rightarrow> knot_rrset list) \<Rightarrow> libknot" where
  "test_knot secs =
    \<lparr>query_pkt_new_ok = True,
     knot_dname_from_str_alloc = (\<lambda>s. if s = [] then None else Some [of_nat (length s)]),
     knot_pkt_put_question_ok = (\<lambda>d c t. True),
     knot_rrset_new_ok = True,
     query_wire = (\<lambda>q. q_name q),
     response_pkt_new_ok = True,
     knot_pkt_parse = (\<lambda>w. if length w < 12 then None
                             else Some \<lparr>pkt_wire = w, pkt_size = length w, pkt_section = secs\<rparr>),
     knot_wire_get_rcode = (\<lambda>w. uint (w ! 3 AND 15))\<rparr>"

definition strict_knot :: libknot where
  "strict_knot =
    (test_knot (\<lambda>s. []))\<lparr>knot_pkt_parse :=
       (\<lambda>w. if length w = 12
            then Some \<lparr>pkt_wire = w, pkt_size = 12, pkt_section = (\<lambda>s. [])\<rparr> else None)\<rparr>"


definition test_resolver :: "bool \<Rightarrow> knot_resolver" where
  "test_resolver d = \<lparr>dnssec_enabled = d, timeout_ms = 1000, root_hints = None\<rparr>"

definition test_datagram :: "byte list" where
  "test_datagram = [18, 52, 129, 131, 0, 1, 0, 0, 0, 0, 0, 0]"

definition rrsig_rr :: knot_rrset where
  "rrsig_rr = \<lparr>rr_owner = Some [0], rr_type = 46, rr_class = 1, rr_ttl = 300, rr_rdata = [[1]]\<rparr>"

definition signed_sections :: "nat \<Rightarrow> knot_rrset list" where
  "signed_sections s = (if s = 0 then [rrsig_rr] else [])"

section \<open>Registry lookups: results\<close>

lemma map_scan_map_of:
  "map_scan tbl code = (case map_of (named_entries tbl) code of Some n \<Rightarrow> n | None \<Rightarrow> ''UNKNOWN'')"
  by (induction tbl code rule: map_scan.induct) simp_all

text \<open>
  Claim C9: each code of the type table and of the class table is mapped to its mnemonic,
  every other code (0 included, which only closes the tables) to "UNKNOWN". The functions
  are total and depend on their argument alone.
\<close>

theorem registry_lookups:
  "knot_qtype_to_string 1 = ''A'' \<and> knot_qtype_to_string 2 = ''NS'' \<and>
   knot_qtype_to_string 5 = ''CNAME'' \<and> knot_qtype_to_string 6 = ''SOA'' \<and>
   knot_qtype_to_string 12 = ''PTR'' \<and> knot_qtype_to_string 15 = ''MX'' \<and>
   knot_qtype_to_string 16 = ''TXT'' \<and> knot_qtype_to_string 28 = ''AAAA'' \<and>
   knot_qtype_to_string 33 = ''SRV'' \<and> knot_qtype_to_string 43 = ''DS'' \<and>
   knot_qtype_to_string 46 = ''RRSIG'' \<and> knot_qtype_to_string 47 = ''NSEC'' \<and>
   knot_qtype_to_string 48 = ''DNSKEY'' \<and> knot_qtype_to_string 50 = ''NSEC3'' \<and>
   knot_qtype_to_string 51 = ''NSEC3PARAM'' \<and>
   (qtype \<notin> {1, 2, 5, 6, 12, 15, 16, 28, 33, 43, 46, 47, 48, 50, 51} \<longrightarrow>
      knot_qtype_to_string qtype = ''UNKNOWN'') \<and>
   knot_qclass_to_string 1 = ''IN'' \<and> knot_qclass_to_string 3 = ''CH'' \<and>
   knot_qclass_to_string 4 = ''HS'' \<and>
   (qclass \<notin> {1, 3, 4} \<longrightarrow> knot_qclass_to_string qclass = ''UNKNOWN'')"
  by (simp add: knot_qtype_to_string_def knot_qclass_to_string_def qtype_map_def qclass_map_def)

theorem registry_lookups_witness:
  "(999 :: 16 word) \<notin> {1, 2, 5, 6, 12, 15, 16, 28, 33, 43, 46, 47, 48, 50, 51} \<and>
   knot_qtype_to_string 999 = ''UNKNOWN'' \<and>
   (0 :: 16 word) \<notin> {1, 3, 4} \<and> knot_qclass_to_string 0 = ''UNKNOWN''"
  using registry_lookups [of 999 0] by simp

text \<open>
  The scan returns the name of the first entry with the code it is given, among the entries
  before the closing one.
\<close>

lemma knot_qtype_to_string_first_match:
  "knot_qtype_to_string qtype =
    (case map_of (named_entries qtype_map) qtype of Some n \<Rightarrow> n | None \<Rightarrow> ''UNKNOWN'')"
  by (simp only: knot_qtype_to_string_def map_scan_map_of)

lemma knot_qclass_to_string_first_match:
  "knot_qclass_to_string qclass =
    (case map_of (named_entries qclass_map) qclass of Some n \<Rightarrow> n | None \<Rightarrow> ''UNKNOWN'')"
  by (simp only: knot_qclass_to_string_def map_scan_map_of)

section \<open>The loop over the root servers\<close>

text \<open>
  One attempt: it returns 0 exactly under \<open>transport_ok\<close>; a failed attempt leaves
  \<^verbatim>\<open>response\<close> and \<^verbatim>\<open>*response_len\<close> as they were; a successful one stores the datagram,
  cut to the capacity it was given. Its system calls follow one of three patterns.
\<close>

lemma send_dns_query_ok_iff:
  "fst (send_dns_query S ip 53 query response n) = 0 \<longleftrightarrow> transport_ok S query ip"
  by (simp add: send_dns_query_def transport_ok_def Let_def split: recv_outcome.split)

lemma send_dns_query_failed:
  "\<not> transport_ok S query ip \<Longrightarrow>
   \<exists>calls. send_dns_query S ip 53 query response n = (- 1, response, n, calls)"
  by (auto simp add: send_dns_query_def transport_ok_def Let_def split: recv_outcome.split)

lemma send_dns_query_received:
  assumes "transport_ok S query ip" and "recvfrom_ret (udp S ip 53 query) = Datagram d"
  shows "\<exists>calls. send_dns_query S ip 53 query response n =
    (0, take (min (length d) n) d @ drop (min (length d) n) response, min (length d) n, calls)"
  using assms by (simp add: send_dns_query_def transport_ok_def Let_def)

lemma send_dns_query_calls:
  "snd (snd (snd (send_dns_query S ip port q r n))) \<in>
     {[Socket],
      [Socket, Setsockopt_RCVTIMEO \<lparr>tv_sec = 5, tv_usec = 0\<rparr>, Sendto ip port q, Close],
      [Socket, Setsockopt_RCVTIMEO \<lparr>tv_sec = 5, tv_usec = 0\<rparr>, Sendto ip port q,
       Recvfrom n, Close]}"
  by (simp add: send_dns_query_def Let_def split: recv_outcome.split)

text \<open>
  The loop: which servers it contacts, what it leaves in \<^verbatim>\<open>response\<close> and
  \<^verbatim>\<open>response_len\<close> when every attempt fails and when one succeeds, and the system calls of
  each attempt.
\<close>

lemma length_root_server_names: "length root_server_names = 13"
  by (simp add: root_server_names_def root_servers_def)

lemma root_servers_names: "root_servers = map Some root_server_names @ [None]"
  by (simp add: root_server_names_def root_servers_def)

lemma try_root_servers_contacted:
  "map server (fst (try_root_servers S (map Some names @ [None]) query response n)) =
   takeWhile (\<lambda>ip. \<not> transport_ok S query ip) names @
   take 1 (dropWhile (\<lambda>ip. \<not> transport_ok S query ip) names)"
proof (induction names arbitrary: response n)
  case Nil
  show ?case by simp
next
  case (Cons ip names)
  show ?case
  proof (cases "transport_ok S query ip")
    case True
    then have "fst (send_dns_query S ip 53 query response n) = 0"
      by (simp add: send_dns_query_ok_iff)
    then obtain r' n' calls
      where "send_dns_query S ip 53 query response n = (0, r', n', calls)"
      by (cases "send_dns_query S ip 53 query response n") auto
    with True show ?thesis by simp
  next
    case False
    from send_dns_query_failed [OF False] obtain calls
      where "send_dns_query S ip 53 query response n = (- 1, response, n, calls)" by blast
    with False Cons.IH [of response n] show ?thesis
      by (cases "try_root_servers S (map Some names @ [None]) query response n") simp
  qed
qed

lemma try_root_servers_all_failed:
  "\<forall>ip\<in>set names. \<not> transport_ok S query ip \<Longrightarrow>
   snd (try_root_servers S (map Some names @ [None]) query response n) = (response, n)"
proof (induction names)
  case Nil
  show ?case by simp
next
  case (Cons ip names)
  then have f: "\<not> transport_ok S query ip" by simp
  from send_dns_query_failed [OF f] obtain calls
    where "send_dns_query S ip 53 query response n = (- 1, response, n, calls)" by blast
  with Cons show ?case
    by (cases "try_root_servers S (map Some names @ [None]) query response n") simp
qed

lemma try_root_servers_first_success:
  assumes "\<forall>ip\<in>set pre. \<not> transport_ok S query ip"
    and "transport_ok S query ip" and "recvfrom_ret (udp S ip 53 query) = Datagram d"
  shows "snd (try_root_servers S (map Some (pre @ ip # post) @ [None]) query response n) =
    (take (min (length d) n) d @ drop (min (length d) n) response, min (length d) n)"
  using assms(1)
proof (induction pre)
  case Nil
  from send_dns_query_received [OF assms(2,3), of response n] obtain calls
    where "send_dns_query S ip 53 query response n =
      (0, take (min (length d) n) d @ drop (min (length d) n) response, min (length d) n, calls)"
    by blast
  then show ?case by simp
next
  case (Cons p pre)
  then have f: "\<not> transport_ok S query p" by simp
  from send_dns_query_failed [OF f] obtain calls
    where "send_dns_query S p 53 query response n = (- 1, response, n, calls)" by blast
  with Cons show ?case
    by (cases "try_root_servers S (map Some (pre @ ip # post) @ [None]) query response n") simp
qed

lemma try_root_servers_syscalls:
  "a \<in> set (fst (try_root_servers S rs q r n)) \<Longrightarrow>
   syscalls a \<in>
     {[Socket],
      [Socket, Setsockopt_RCVTIMEO \<lparr>tv_sec = 5, tv_usec = 0\<rparr>, Sendto (server a) 53 q, Close],
      [Socket, Setsockopt_RCVTIMEO \<lparr>tv_sec = 5, tv_usec = 0\<rparr>, Sendto (server a) 53 q,
       Recvfrom n, Close]}"
proof (induction S rs q r n rule: try_root_servers.induct)
  case (1 S query response response_len)
  then show ?case by simp
next
  case (2 S rest query response response_len)
  then show ?case by simp
next
  case (3 S ip rest query response response_len)
  obtain ret r' n' calls
    where sd: "send_dns_query S ip 53 query response response_len = (ret, r', n', calls)"
    by (cases "send_dns_query S ip 53 query response response_len") auto
  have calls: "calls \<in>
     {[Socket],
      [Socket, Setsockopt_RCVTIMEO \<lparr>tv_sec = 5, tv_usec = 0\<rparr>, Sendto ip 53 query, Close],
      [Socket, Setsockopt_RCVTIMEO \<lparr>tv_sec = 5, tv_usec = 0\<rparr>, Sendto ip 53 query,
       Recvfrom response_len, Close]}"
    using send_dns_query_calls [of S ip 53 query response response_len] sd by simp
  show ?case
  proof (cases "ret = 0")
    case True
    with 3 sd calls show ?thesis by auto
  next
    case False
    then have "\<not> transport_ok S query ip"
      using send_dns_query_ok_iff [of S ip query response response_len] sd by simp
    from send_dns_query_failed [OF this, of response response_len] sd
    have unchanged: "r' = response" "n' = response_len" by simp_all
    obtain atts r'' n'' where rec: "try_root_servers S rest query r' n' = (atts, r'', n'')"
      by (cases "try_root_servers S rest query r' n'") auto
    from 3(2) sd False rec
    have "a = \<lparr>server = ip, syscalls = calls\<rparr> \<or> a \<in> set atts" by simp
    then show ?thesis
    proof
      assume "a = \<lparr>server = ip, syscalls = calls\<rparr>"
      with calls show ?thesis by auto
    next
      assume "a \<in> set atts"
      then have "a \<in> set (fst (try_root_servers S rest query r' n'))" using rec by simp
      from 3(1) [OF sd [symmetric] refl refl False this] unchanged
      show ?thesis by simp
    qed
  qed
qed

lemma prefix_first_all:
  "\<forall>x\<in>set xs. P x \<Longrightarrow> takeWhile P xs @ take 1 (dropWhile P xs) = xs"
  by (induction xs) auto

lemma distinct_prefix_first:
  "distinct xs \<Longrightarrow> distinct (takeWhile P xs @ take 1 (dropWhile P xs))"
  by (induction xs) (auto dest: set_takeWhileD in_set_takeD set_dropWhileD)

section \<open>Resolution: general facts\<close>

text \<open>
  A call either stops before the loop with an error result and no attempt, or runs the loop
  and interprets what it left. Every returned pointer comes from one of the two result
  constructors.
\<close>

lemma length_response_uninit: "length (response_uninit S) = 4096"
  by (simp add: response_uninit_def)

lemma nth_response_uninit: "i < 4096 \<Longrightarrow> response_uninit S ! i = stack_byte S i"
  by (simp add: response_uninit_def)

lemma resolve_built:
  assumes "query_pkt_new_ok L" and "knot_dname_from_str_alloc L qname = Some dname"
    and "knot_pkt_put_question_ok L dname qclass qtype"
  shows "knot_resolver_resolve S L (Some resolver) (Some qname) qtype qclass =
    (fst (try_root_servers S root_servers (query_wire L (build_query S L dname qtype qclass))
            (response_uninit S) 4096),
     interpret_response S L resolver
       (fst (snd (try_root_servers S root_servers
            (query_wire L (build_query S L dname qtype qclass)) (response_uninit S) 4096)))
       (snd (snd (try_root_servers S root_servers
            (query_wire L (build_query S L dname qtype qclass)) (response_uninit S) 4096))))"
  using assms by (simp add: knot_resolver_resolve_def recursive_resolve_def case_prod_beta)

lemma resolve_attempts_cases:
  "fst (knot_resolver_resolve S L resolver qname qtype qclass) = [] \<or>
   (\<exists>q dname. qname = Some q \<and> knot_dname_from_str_alloc L q = Some dname \<and>
      fst (knot_resolver_resolve S L resolver qname qtype qclass) =
      fst (try_root_servers S root_servers (query_wire L (build_query S L dname qtype qclass))
             (response_uninit S) 4096))"
  by (auto simp add: knot_resolver_resolve_def recursive_resolve_def case_prod_beta
      split: option.splits)


lemma resolve_attempt_syscalls:
  assumes "a \<in> set (fst (knot_resolver_resolve S L resolver qname qtype qclass))"
  shows "\<exists>q dname. qname = Some q \<and> knot_dname_from_str_alloc L q = Some dname \<and>
    syscalls a \<in>
     {[Socket],
      [Socket, Setsockopt_RCVTIMEO \<lparr>tv_sec = 5, tv_usec = 0\<rparr>,
       Sendto (server a) 53 (query_wire L (build_query S L dname qtype qclass)), Close],
      [Socket, Setsockopt_RCVTIMEO \<lparr>tv_sec = 5, tv_usec = 0\<rparr>,
       Sendto (server a) 53 (query_wire L (build_query S L dname qtype qclass)),
       Recvfrom 4096, Close]}"
proof -
  from resolve_attempts_cases [of S L resolver qname qtype qclass] assms
  obtain q dname where q: "qname = Some q" "knot_dname_from_str_alloc L q = Some dname"
    and "a \<in> set (fst (try_root_servers S root_servers
            (query_wire L (build_query S L dname qtype qclass)) (response_uninit S) 4096))"
    by auto
  from try_root_servers_syscalls [OF this(3)] q show ?thesis by blast
qed

lemma resolve_result_cases:
  "(\<exists>m. snd (knot_resolver_resolve S L resolver qname qtype qclass) =
          create_error_result S (Some m)) \<or>
   (\<exists>r response n. resolver = Some r \<and>
      snd (knot_resolver_resolve S L resolver qname qtype qclass) =
      interpret_response S L r response n)"
  by (auto simp add: knot_resolver_resolve_def recursive_resolve_def case_prod_beta
      split: option.splits)

lemma create_error_result_Some:
  "create_error_result S (Some m) = Some r \<Longrightarrow>
   wire r = None \<and> wire_size r = 0 \<and> rcode r = 2 \<and> \<not> secure r \<and> \<not> bogus r \<and>
   error_msg r = (if strdup_ok S then Some m else None)"
  by (auto simp add: create_error_result_def split: if_splits)


lemma interpret_response_Some:
  assumes "interpret_response S L resolver response n = Some r"
  shows "(\<exists>m. create_error_result S (Some m) = Some r) \<or>
    (\<exists>pkt. n \<noteq> 0 \<and> knot_pkt_parse L (take n response) = Some pkt \<and>
       r = \<lparr>wire = Some (take (pkt_size pkt) (pkt_wire pkt)), wire_size = pkt_size pkt,
            rcode = knot_wire_get_rcode L (pkt_wire pkt), secure = dnssec_scan resolver pkt,
            bogus = False, error_msg = None\<rparr>)"
  using assms
  by (auto simp add: interpret_response_def create_success_result_def Let_def
      split: if_splits option.splits)

lemma interpret_response_no_response_msg:
  assumes "interpret_response S L resolver response n = Some r"
    and "n \<noteq> 0"
  shows "error_msg r \<noteq> Some ''No response from root servers''"
  using assms
  by (auto simp add: interpret_response_def create_error_result_def create_success_result_def
      Let_def split: if_splits option.splits)

lemma scan_section_iff:
  "scan_section rrs sec \<longleftrightarrow> sec \<or> (\<exists>rr\<in>set rrs. rr_type rr = KNOT_RRTYPE_RRSIG)"
  by (induction rrs) auto

lemma scan_sections_iff:
  "scan_sections pkt ss sec \<longleftrightarrow>
   sec \<or> (\<exists>s\<in>set ss. \<exists>rr\<in>set (pkt_section pkt s). rr_type rr = KNOT_RRTYPE_RRSIG)"
  by (induction ss arbitrary: sec) (auto simp add: Let_def scan_section_iff)

lemma dnssec_scan_iff:
  "dnssec_scan resolver pkt \<longleftrightarrow>
   dnssec_enabled resolver \<and>
   (\<exists>s<KNOT_PKT_SECTIONS. \<exists>rr\<in>set (pkt_section pkt s). rr_type rr = KNOT_RRTYPE_RRSIG)"
  by (auto simp add: dnssec_scan_def scan_sections_iff)

lemma dnssec_scan_timeout_ms: "dnssec_scan (r\<lparr>timeout_ms := t\<rparr>) pkt = dnssec_scan r pkt"
  by (simp add: dnssec_scan_def)

lemma interpret_response_timeout_ms:
  "interpret_response S L (r\<lparr>timeout_ms := t\<rparr>) response n = interpret_response S L r response n"
  by (simp add: interpret_response_def dnssec_scan_timeout_ms Let_def cong: option.case_cong)

lemma resolve_timeout_ms:
  "knot_resolver_resolve S L (Some (r\<lparr>timeout_ms := t\<rparr>)) qname qtype qclass =
   knot_resolver_resolve S L (Some r) qname qtype qclass"
  by (simp add: knot_resolver_resolve_def recursive_resolve_def interpret_response_timeout_ms
      split: option.splits)

lemma resolve_all_failed:
  assumes "query_pkt_new_ok L" and "knot_dname_from_str_alloc L qname = Some dname"
    and "knot_pkt_put_question_ok L dname qclass qtype"
    and "\<forall>ip\<in>set root_server_names.
           \<not> transport_ok S (query_wire L (build_query S L dname qtype qclass)) ip"
  shows "map server (fst (knot_resolver_resolve S L (Some resolver) (Some qname) qtype qclass)) =
           root_server_names"
    and "snd (knot_resolver_resolve S L (Some resolver) (Some qname) qtype qclass) =
           interpret_response S L resolver (response_uninit S) 4096"
proof -
  let ?q = "query_wire L (build_query S L dname qtype qclass)"
  have "snd (try_root_servers S root_servers ?q (response_uninit S) 4096) =
        (response_uninit S, 4096)"
    using assms(4) by (simp add: root_servers_names try_root_servers_all_failed)
  then show "snd (knot_resolver_resolve S L (Some resolver) (Some qname) qtype qclass) =
      interpret_response S L resolver (response_uninit S) 4096"
    by (simp add: resolve_built [OF assms(1-3)])
  show "map server (fst (knot_resolver_resolve S L (Some resolver) (Some qname) qtype qclass)) =
      root_server_names"
    by (simp only: resolve_built [OF assms(1-3)] fst_conv root_servers_names
        try_root_servers_contacted prefix_first_all [OF assms(4)])
qed

section \<open>Evaluation on the test environments\<close>

text \<open>The functions above, computed on the test environments.\<close>

lemma test_knot_simps:
  "query_pkt_new_ok (test_knot secs)"
  "knot_dname_from_str_alloc (test_knot secs) ''example.com'' = Some [11]"
  "knot_dname_from_str_alloc (test_knot secs) [] = None"
  "knot_pkt_put_question_ok (test_knot secs) d c t"
  "knot_rrset_new_ok (test_knot secs)"
  "query_wire (test_knot secs) (build_query S (test_knot secs) d t c) = d"
  "response_pkt_new_ok (test_knot secs)"
  by (simp_all add: test_knot_def build_query_def)

lemma length_test_datagram: "length test_datagram = 12"
  by (simp add: test_datagram_def)

lemma silent_all_fail: "\<not> transport_ok (test_sys silent_network) q ip"
  by (simp add: transport_ok_def test_sys_def silent_network_def)

lemma send_answering:
  "send_dns_query (test_sys (answering_network test_datagram)) ip 53 [11] r 4096 =
   (0, test_datagram @ drop 12 r, 12,
    [Socket, Setsockopt_RCVTIMEO \<lparr>tv_sec = 5, tv_usec = 0\<rparr>, Sendto ip 53 [11],
     Recvfrom 4096, Close])"
  by (simp add: send_dns_query_def test_sys_def answering_network_def Let_def
      length_test_datagram)

lemma send_silent:
  "send_dns_query (test_sys silent_network) ip 53 [11] r 4096 =
   (- 1, r, 4096,
    [Socket, Setsockopt_RCVTIMEO \<lparr>tv_sec = 5, tv_usec = 0\<rparr>, Sendto ip 53 [11],
     Recvfrom 4096, Close])"
  by (simp add: send_dns_query_def test_sys_def silent_network_def Let_def)

lemma try_answering:
  "try_root_servers (test_sys (answering_network test_datagram)) root_servers [11] r 4096 =
   ([\<lparr>server = ''198.41.0.4'',
      syscalls = [Socket, Setsockopt_RCVTIMEO \<lparr>tv_sec = 5, tv_usec = 0\<rparr>,
                  Sendto ''198.41.0.4'' 53 [11], Recvfrom 4096, Close]\<rparr>],
    test_datagram @ drop 12 r, 12)"
  by (simp add: root_servers_def send_answering)

lemma send_second_first:
  "send_dns_query (test_sys (second_answers test_datagram)) ''198.41.0.4'' 53 [11] r 4096 =
   (- 1, r, 4096,
    [Socket, Setsockopt_RCVTIMEO \<lparr>tv_sec = 5, tv_usec = 0\<rparr>, Sendto ''198.41.0.4'' 53 [11],
     Recvfrom 4096, Close])"
  by (simp add: send_dns_query_def test_sys_def second_answers_def silent_network_def Let_def)

lemma send_second_second:
  "send_dns_query (test_sys (second_answers test_datagram)) ''199.9.14.201'' 53 [11] r 4096 =
   (0, test_datagram @ drop 12 r, 12,
    [Socket, Setsockopt_RCVTIMEO \<lparr>tv_sec = 5, tv_usec = 0\<rparr>, Sendto ''199.9.14.201'' 53 [11],
     Recvfrom 4096, Close])"
  by (simp add: send_dns_query_def test_sys_def second_answers_def answering_network_def Let_def
      length_test_datagram)

lemma try_second_answers:
  "try_root_servers (test_sys (second_answers test_datagram)) root_servers [11] r 4096 =
   ([\<lparr>server = ''198.41.0.4'',
      syscalls = [Socket, Setsockopt_RCVTIMEO \<lparr>tv_sec = 5, tv_usec = 0\<rparr>,
                  Sendto ''198.41.0.4'' 53 [11], Recvfrom 4096, Close]\<rparr>,
     \<lparr>server = ''199.9.14.201'',
      syscalls = [Socket, Setsockopt_RCVTIMEO \<lparr>tv_sec = 5, tv_usec = 0\<rparr>,
                  Sendto ''199.9.14.201'' 53 [11], Recvfrom 4096, Close]\<rparr>],
    test_datagram @ drop 12 r, 12)"
  by (simp add: root_servers_def send_second_first send_second_second)

lemma transport_second:
  "transport_ok (test_sys (second_answers test_datagram)) [11] ip \<longleftrightarrow> ip \<noteq> ''198.41.0.4''"
  by (simp add: transport_ok_def test_sys_def second_answers_def silent_network_def
      answering_network_def)

lemma interpret_test_datagram:
  "interpret_response (test_sys net) (test_knot secs) resolver (test_datagram @ rest) 12 =
   Some \<lparr>wire = Some test_datagram, wire_size = 12, rcode = 3,
         secure = dnssec_scan resolver
           \<lparr>pkt_wire = test_datagram, pkt_size = 12, pkt_section = secs\<rparr>,
         bogus = False, error_msg = None\<rparr>"
proof -
  have rc: "uint (test_datagram ! 3 AND 15) = 3"
    by (simp add: test_datagram_def)
  show ?thesis
    by (simp add: interpret_response_def test_knot_def create_success_result_def test_sys_def
      length_test_datagram rc)
qed

lemma interpret_uninit_test:
  "interpret_response (test_sys net) (test_knot secs) resolver (response_uninit (test_sys net)) 4096 =
   Some \<lparr>wire = Some (response_uninit (test_sys net)), wire_size = 4096, rcode = 0,
         secure = dnssec_scan resolver \<lparr>pkt_wire = response_uninit (test_sys net), pkt_size = 4096, pkt_section = secs\<rparr>, bogus = False, error_msg = None\<rparr>"
  by (simp add: interpret_response_def test_knot_def create_success_result_def
      length_response_uninit nth_response_uninit)
     (simp add: test_sys_def)

lemma resolve_answering:
  "knot_resolver_resolve (test_sys (answering_network test_datagram)) (test_knot secs)
     (Some resolver) (Some ''example.com'') 1 1 =
   ([\<lparr>server = ''198.41.0.4'',
      syscalls = [Socket, Setsockopt_RCVTIMEO \<lparr>tv_sec = 5, tv_usec = 0\<rparr>,
                  Sendto ''198.41.0.4'' 53 [11], Recvfrom 4096, Close]\<rparr>],
    Some \<lparr>wire = Some test_datagram, wire_size = 12, rcode = 3,
         secure = dnssec_scan resolver
           \<lparr>pkt_wire = test_datagram, pkt_size = 12, pkt_section = secs\<rparr>,
         bogus = False, error_msg = None\<rparr>)"
  by (simp add: resolve_built [of _ _ "[11]"] test_knot_simps try_answering
      interpret_test_datagram)

lemma signed_sections_rrsig:
  "(\<exists>s<KNOT_PKT_SECTIONS. \<exists>rr\<in>set (signed_sections s). rr_type rr = KNOT_RRTYPE_RRSIG)"
proof -
  have "rr_type rrsig_rr = KNOT_RRTYPE_RRSIG"
    by (simp add: rrsig_rr_def KNOT_RRTYPE_RRSIG_def)
  then have "\<exists>rr\<in>set (signed_sections 0). rr_type rr = KNOT_RRTYPE_RRSIG"
    by (simp add: signed_sections_def)
  moreover have "0 < KNOT_PKT_SECTIONS" by (simp add: KNOT_PKT_SECTIONS_def)
  ultimately show ?thesis by blast
qed

lemma scan_signed:
  "dnssec_scan (test_resolver d)
     \<lparr>pkt_wire = test_datagram, pkt_size = 12, pkt_section = signed_sections\<rparr> = d"
  using signed_sections_rrsig by (simp add: dnssec_scan_iff test_resolver_def)

lemma resolve_signed:
  "knot_resolver_resolve (test_sys (answering_network test_datagram))
      (test_knot signed_sections) (Some (test_resolver d)) (Some ''example.com'') 1 1 =
   ([\<lparr>server = ''198.41.0.4'',
      syscalls = [Socket, Setsockopt_RCVTIMEO \<lparr>tv_sec = 5, tv_usec = 0\<rparr>,
                  Sendto ''198.41.0.4'' 53 [11], Recvfrom 4096, Close]\<rparr>],
    Some \<lparr>wire = Some test_datagram, wire_size = 12, rcode = 3, secure = d,
         bogus = False, error_msg = None\<rparr>)"
  by (simp add: resolve_answering scan_signed)

lemma error_result_test:
  "create_error_result (test_sys net) (Some m) =
   Some \<lparr>wire = None, wire_size = 0, rcode = 2, secure = False, bogus = False,
         error_msg = Some m\<rparr>"
  by (simp add: create_error_result_def test_sys_def)

lemma error_result_no_strdup:
  "create_error_result ((test_sys net)\<lparr>strdup_ok := False\<rparr>) (Some m) =
   Some \<lparr>wire = None, wire_size = 0, rcode = 2, secure = False, bogus = False,
         error_msg = None\<rparr>"
  by (simp add: create_error_result_def test_sys_def)







section \<open>Claims\<close>

subsection \<open>C1: every transport attempt fails, or the accepted response is empty\<close>

text \<open>
  The second half of the claim holds: when the first attempt that succeeds delivers an empty
  datagram, \<^verbatim>\<open>response_len\<close> is 0 and the call returns the error result "No response from
  root servers" (or \<^verbatim>\<open>NULL\<close> when the result cannot be allocated).
\<close>

lemma zero_length_response:
  assumes "query_pkt_new_ok L" and "knot_dname_from_str_alloc L qname = Some dname"
    and "knot_pkt_put_question_ok L dname qclass qtype"
    and "root_server_names = pre @ ip # post"
    and "\<forall>p\<in>set pre. \<not> transport_ok S (query_wire L (build_query S L dname qtype qclass)) p"
    and "transport_ok S (query_wire L (build_query S L dname qtype qclass)) ip"
    and "recvfrom_ret (udp S ip 53 (query_wire L (build_query S L dname qtype qclass))) =
         Datagram []"
  shows "snd (knot_resolver_resolve S L (Some resolver) (Some qname) qtype qclass) =
         create_error_result S (Some ''No response from root servers'')"
proof -
  let ?q = "query_wire L (build_query S L dname qtype qclass)"
  have "snd (try_root_servers S root_servers ?q (response_uninit S) 4096) =
        (response_uninit S, 0)"
    using try_root_servers_first_success [OF assms(5-7), of post "response_uninit S" 4096]
    by (simp add: root_servers_names assms(4))
  then show ?thesis
    by (simp add: resolve_built [OF assms(1-3)] interpret_response_def)
qed

text \<open>
  Claim C1, first half: when every transport attempt fails, \<^verbatim>\<open>response_len\<close> still holds
  its initial value 4096 after the loop, since \<^verbatim>\<open>send_dns_query\<close> writes it only on success.
  The test \<^verbatim>\<open>response_len == 0\<close> is therefore false: the call goes on to interpret the 4096
  bytes of the uninitialised array \<^verbatim>\<open>response\<close>, and whatever result it returns does not
  carry the message "No response from root servers".
\<close>

theorem all_attempts_fail:
  assumes "query_pkt_new_ok L" and "knot_dname_from_str_alloc L qname = Some dname"
    and "knot_pkt_put_question_ok L dname qclass qtype"
    and "\<forall>ip\<in>set root_server_names.
           \<not> transport_ok S (query_wire L (build_query S L dname qtype qclass)) ip"
  shows "snd (knot_resolver_resolve S L (Some resolver) (Some qname) qtype qclass) =
           interpret_response S L resolver (response_uninit S) 4096
         \<and> (\<forall>r. snd (knot_resolver_resolve S L (Some resolver) (Some qname) qtype qclass) = Some r
               \<longrightarrow> error_msg r \<noteq> Some ''No response from root servers'')"
proof -
  have eq: "snd (knot_resolver_resolve S L (Some resolver) (Some qname) qtype qclass) =
      interpret_response S L resolver (response_uninit S) 4096"
    by (rule resolve_all_failed(2) [OF assms])
  show ?thesis
    using eq interpret_response_no_response_msg [of S L resolver "response_uninit S" 4096]
    by simp
qed

text \<open>
  On a network where every receive times out, with a libknot that rejects the 4096 bytes,
  the call reports a parse failure.
\<close>

theorem all_attempts_fail_witness:
  "list_all (\<lambda>ip. \<not> transport_ok (test_sys silent_network) [11] ip) root_server_names \<and>
   snd (knot_resolver_resolve (test_sys silent_network) strict_knot
          (Some (test_resolver True)) (Some ''example.com'') 1 1) =
   Some \<lparr>wire = None, wire_size = 0, rcode = 2, secure = False, bogus = False,
         error_msg = Some ''Failed to parse response''\<rparr>"
proof -
  have h1: "query_pkt_new_ok strict_knot"
    and h2: "knot_dname_from_str_alloc strict_knot ''example.com'' = Some [11]"
    and h3: "knot_pkt_put_question_ok strict_knot [11] 1 1"
    by (simp_all add: strict_knot_def test_knot_def)
  have h4: "\<forall>ip\<in>set root_server_names. \<not> transport_ok (test_sys silent_network)
       (query_wire strict_knot (build_query (test_sys silent_network) strict_knot [11] 1 1)) ip"
    by (simp add: silent_all_fail)
  have parse: "interpret_response (test_sys silent_network) strict_knot (test_resolver True)
      (response_uninit (test_sys silent_network)) 4096 =
    Some \<lparr>wire = None, wire_size = 0, rcode = 2, secure = False, bogus = False,
         error_msg = Some ''Failed to parse response''\<rparr>"
    by (simp add: interpret_response_def strict_knot_def test_knot_def length_response_uninit
        error_result_test)
  show ?thesis
    using all_attempts_fail [OF h1 h2 h3 h4, of "test_resolver True"]
    by (simp add: parse silent_all_fail list_all_iff)
qed

subsection \<open>C2: the two variants of a result\<close>

text \<open>
  Every returned result has one of two shapes, and never both: a wire buffer, no error
  message and the RCODE read from the header of the parsed packet; or no wire buffer, size
  0 and RCODE 2, with an error message whenever \<^verbatim>\<open>strdup\<close> succeeded.
\<close>

lemma result_variants:
  assumes "snd (knot_resolver_resolve S L resolver qname qtype qclass) = Some r"
  shows "(wire r \<noteq> None \<and> error_msg r = None \<and>
          (\<exists>pkt :: response_pkt. wire r = Some (take (pkt_size pkt) (pkt_wire pkt)) \<and>
             rcode r = knot_wire_get_rcode L (pkt_wire pkt))) \<noteq>
         (wire r = None \<and> wire_size r = 0 \<and> rcode r = 2 \<and>
          (strdup_ok S \<longrightarrow> error_msg r \<noteq> None))"
proof -
  from resolve_result_cases [of S L resolver qname qtype qclass] assms
  consider m where "create_error_result S (Some m) = Some r"
    | r' response n where "interpret_response S L r' response n = Some r"
    by auto
  then show ?thesis
  proof cases
    case 1
    from create_error_result_Some [OF this] show ?thesis by simp
  next
    case 2
    from interpret_response_Some [OF this] show ?thesis
    proof
      assume "\<exists>m. create_error_result S (Some m) = Some r"
      then obtain m where "create_error_result S (Some m) = Some r" ..
      from create_error_result_Some [OF this] show ?thesis by simp
    next
      assume "\<exists>pkt. n \<noteq> 0 \<and> knot_pkt_parse L (take n response) = Some pkt \<and>
       r = \<lparr>wire = Some (take (pkt_size pkt) (pkt_wire pkt)), wire_size = pkt_size pkt,
            rcode = knot_wire_get_rcode L (pkt_wire pkt), secure = dnssec_scan r' pkt,
            bogus = False, error_msg = None\<rparr>"
      then obtain pkt where r: "r = \<lparr>wire = Some (take (pkt_size pkt) (pkt_wire pkt)),
            wire_size = pkt_size pkt, rcode = knot_wire_get_rcode L (pkt_wire pkt),
            secure = dnssec_scan r' pkt, bogus = False, error_msg = None\<rparr>"
        by blast
      have "\<exists>p :: response_pkt. wire r = Some (take (pkt_size p) (pkt_wire p)) \<and>
             rcode r = knot_wire_get_rcode L (pkt_wire p)"
        by (rule exI [of _ pkt]) (simp add: r)
      with r show ?thesis by simp
    qed
  qed
qed

text \<open>
  Claim C2 says more: that a wire buffer is present only with the RCODE of a received
  response, and that a result without wire buffer has its error message set. Both fail.
  When no root server answers and libknot accepts the 4096 bytes it is given, the call
  returns a result with a wire buffer although all 13 attempts failed: the buffer and the
  RCODE come from the uninitialised array. And when \<^verbatim>\<open>strdup\<close> returns \<^verbatim>\<open>NULL\<close>, which
  \<^verbatim>\<open>create_error_result\<close> does not test, an error result carries no message.
\<close>

theorem uninitialised_buffer_returned:
  "list_all (\<lambda>ip. \<not> transport_ok (test_sys silent_network) [11] ip) root_server_names \<and>
   map server (fst (knot_resolver_resolve (test_sys silent_network) (test_knot (\<lambda>s. []))
          (Some (test_resolver False)) (Some ''example.com'') 1 1)) = root_server_names \<and>
   snd (knot_resolver_resolve (test_sys silent_network) (test_knot (\<lambda>s. []))
          (Some (test_resolver False)) (Some ''example.com'') 1 1) =
   Some \<lparr>wire = Some (response_uninit (test_sys silent_network)), wire_size = 4096, rcode = 0,
         secure = False, bogus = False, error_msg = None\<rparr> \<and>
   snd (knot_resolver_resolve ((test_sys silent_network)\<lparr>strdup_ok := False\<rparr>)
          (test_knot (\<lambda>s. [])) None (Some ''example.com'') 1 1) =
   Some \<lparr>wire = None, wire_size = 0, rcode = 2, secure = False, bogus = False,
         error_msg = None\<rparr>"
proof -
  let ?S = "test_sys silent_network"
  let ?L = "test_knot (\<lambda>s. [])"
  have h4: "\<forall>ip\<in>set root_server_names. \<not> transport_ok ?S
       (query_wire ?L (build_query ?S ?L [11] 1 1)) ip"
    by (simp add: silent_all_fail)
  note all = resolve_all_failed [OF test_knot_simps(1) test_knot_simps(2) test_knot_simps(4) h4,
      of "test_resolver False"]
  have sc: "dnssec_scan (test_resolver False)
      \<lparr>pkt_wire = response_uninit ?S, pkt_size = 4096, pkt_section = (\<lambda>s. [])\<rparr> = False"
    by (simp add: dnssec_scan_iff)
  have 1: "list_all (\<lambda>ip. \<not> transport_ok ?S [11] ip) root_server_names"
    by (simp add: list_all_iff silent_all_fail)
  have 3: "snd (knot_resolver_resolve ?S ?L (Some (test_resolver False))
      (Some ''example.com'') 1 1) =
    Some \<lparr>wire = Some (response_uninit ?S), wire_size = 4096, rcode = 0,
         secure = False, bogus = False, error_msg = None\<rparr>"
    by (simp add: all(2) interpret_uninit_test sc)
  have 4: "snd (knot_resolver_resolve (?S\<lparr>strdup_ok := False\<rparr>) ?L None
      (Some ''example.com'') 1 1) =
    Some \<lparr>wire = None, wire_size = 0, rcode = 2, secure = False, bogus = False,
         error_msg = None\<rparr>"
    by (simp add: knot_resolver_resolve_def error_result_no_strdup)
  from 1 all(1) 3 4 show ?thesis by (intro conjI)
qed

subsection \<open>C3: the secure flag\<close>

text \<open>
  Claim C3: for the response that the call parsed, the \<^verbatim>\<open>secure\<close> field of the returned
  result is true exactly when \<^verbatim>\<open>dnssec_enabled\<close> is set and one of the \<^verbatim>\<open>KNOT_PKT_SECTIONS\<close>
  sections of the packet holds a record of type RRSIG.
\<close>

theorem secure_flag:
  assumes "query_pkt_new_ok L" and "knot_dname_from_str_alloc L qname = Some dname"
    and "knot_pkt_put_question_ok L dname qclass qtype"
    and "snd (try_root_servers S root_servers
           (query_wire L (build_query S L dname qtype qclass)) (response_uninit S) 4096) =
         (response, n)"
    and "n \<noteq> 0" and "response_pkt_new_ok L"
    and "knot_pkt_parse L (take n response) = Some pkt"
    and "snd (knot_resolver_resolve S L (Some resolver) (Some qname) qtype qclass) = Some r"
  shows "secure r \<longleftrightarrow>
         dnssec_enabled resolver \<and>
         (\<exists>s<KNOT_PKT_SECTIONS. \<exists>rr\<in>set (pkt_section pkt s). rr_type rr = KNOT_RRTYPE_RRSIG)"
proof -
  from assms(4,8) have "interpret_response S L resolver response n = Some r"
    by (simp add: resolve_built [OF assms(1-3)])
  with assms(5-7) have "secure r = dnssec_scan resolver pkt"
    by (auto simp add: interpret_response_def create_success_result_def Let_def
        split: if_splits)
  then show ?thesis by (simp add: dnssec_scan_iff)
qed

text \<open>
  The same response, holding one RRSIG record, gives \<^verbatim>\<open>secure = true\<close> with DNSSEC enabled
  and \<^verbatim>\<open>secure = false\<close> with DNSSEC disabled.
\<close>

theorem secure_flag_witness:
  "snd (knot_resolver_resolve (test_sys (answering_network test_datagram))
      (test_knot signed_sections) (Some (test_resolver True)) (Some ''example.com'') 1 1) =
   Some \<lparr>wire = Some test_datagram, wire_size = 12, rcode = 3, secure = True,
         bogus = False, error_msg = None\<rparr> \<and>
   snd (knot_resolver_resolve (test_sys (answering_network test_datagram))
      (test_knot signed_sections) (Some (test_resolver False)) (Some ''example.com'') 1 1) =
   Some \<lparr>wire = Some test_datagram, wire_size = 12, rcode = 3, secure = False,
         bogus = False, error_msg = None\<rparr> \<and>
   (\<exists>s<KNOT_PKT_SECTIONS. \<exists>rr\<in>set (signed_sections s). rr_type rr = KNOT_RRTYPE_RRSIG)"
proof -
  let ?S = "test_sys (answering_network test_datagram)"
  let ?L = "test_knot signed_sections"
  let ?r = "\<lparr>wire = Some test_datagram, wire_size = 12, rcode = 3, secure = True,
         bogus = False, error_msg = None\<rparr>"
  let ?pkt = "\<lparr>pkt_wire = test_datagram, pkt_size = 12, pkt_section = signed_sections\<rparr>"
  have res: "snd (knot_resolver_resolve ?S ?L (Some (test_resolver True))
      (Some ''example.com'') 1 1) = Some ?r"
    by (simp add: resolve_signed)
  have res': "snd (knot_resolver_resolve ?S ?L (Some (test_resolver False))
      (Some ''example.com'') 1 1) = Some (?r\<lparr>secure := False\<rparr>)"
    by (simp add: resolve_signed)
  have loop: "snd (try_root_servers ?S root_servers
           (query_wire ?L (build_query ?S ?L [11] 1 1)) (response_uninit ?S) 4096) =
         (test_datagram @ drop 12 (response_uninit ?S), 12)"
    by (simp add: test_knot_simps try_answering)
  have parse: "knot_pkt_parse ?L (take 12 (test_datagram @ drop 12 (response_uninit ?S))) =
      Some ?pkt"
    by (simp add: test_knot_def length_test_datagram)
  have nz: "(12 :: nat) \<noteq> 0" by simp
  have "secure ?r \<longleftrightarrow> dnssec_enabled (test_resolver True) \<and>
         (\<exists>s<KNOT_PKT_SECTIONS. \<exists>rr\<in>set (pkt_section ?pkt s). rr_type rr = KNOT_RRTYPE_RRSIG)"
    by (rule secure_flag [OF test_knot_simps(1) test_knot_simps(2) test_knot_simps(4) loop nz
          test_knot_simps(7) parse res])
  with res res' show ?thesis by simp
qed

subsection \<open>C4: iteration over the root servers\<close>

text \<open>
  Claim C4: once the query is built, the servers contacted are, in the order of the list of
  13 root servers, those whose attempt fails up to and including the first whose attempt
  succeeds; no server is contacted twice and none after the first success. Whether an
  attempt succeeds is \<open>transport_ok\<close>, which does not look at the payload received.
\<close>

theorem root_server_iteration:
  assumes "query_pkt_new_ok L" and "knot_dname_from_str_alloc L qname = Some dname"
    and "knot_pkt_put_question_ok L dname qclass qtype"
  shows "map server (fst (knot_resolver_resolve S L (Some resolver) (Some qname) qtype qclass)) =
      takeWhile (\<lambda>ip. \<not> transport_ok S (query_wire L (build_query S L dname qtype qclass)) ip)
        root_server_names @
      take 1 (dropWhile
        (\<lambda>ip. \<not> transport_ok S (query_wire L (build_query S L dname qtype qclass)) ip)
        root_server_names) \<and>
    root_server_names =
      [''198.41.0.4'', ''199.9.14.201'', ''192.33.4.12'', ''199.7.91.13'', ''192.203.230.10'',
       ''192.5.5.241'', ''192.112.36.4'', ''198.97.190.53'', ''192.36.148.17'',
       ''192.58.128.30'', ''193.0.14.129'', ''199.7.83.42'', ''202.12.27.33''] \<and>
    length root_server_names = 13 \<and>
    distinct (map server (fst (knot_resolver_resolve S L (Some resolver) (Some qname) qtype qclass)))"
proof -
  let ?q = "query_wire L (build_query S L dname qtype qclass)"
  let ?P = "\<lambda>ip. \<not> transport_ok S ?q ip"
  have contacted:
    "map server (fst (knot_resolver_resolve S L (Some resolver) (Some qname) qtype qclass)) =
     takeWhile ?P root_server_names @ take 1 (dropWhile ?P root_server_names)"
    by (simp add: resolve_built [OF assms] root_servers_names try_root_servers_contacted)
  have names: "root_server_names =
      [''198.41.0.4'', ''199.9.14.201'', ''192.33.4.12'', ''199.7.91.13'', ''192.203.230.10'',
       ''192.5.5.241'', ''192.112.36.4'', ''198.97.190.53'', ''192.36.148.17'',
       ''192.58.128.30'', ''193.0.14.129'', ''199.7.83.42'', ''202.12.27.33'']"
    by (simp add: root_server_names_def root_servers_def)
  have d: "distinct root_server_names"
    by (simp add: names)
  have "distinct (takeWhile ?P root_server_names @ take 1 (dropWhile ?P root_server_names))"
    using d by (rule distinct_prefix_first)
  with contacted names show ?thesis by (simp add: length_root_server_names)
qed

text \<open>When the first server stays silent and the others answer, two servers are contacted.\<close>

theorem root_server_iteration_witness:
  "map server (fst (knot_resolver_resolve (test_sys (second_answers test_datagram))
      (test_knot signed_sections) (Some (test_resolver True)) (Some ''example.com'') 1 1)) =
   [''198.41.0.4'', ''199.9.14.201'']"
proof -
  note h = test_knot_simps(1) [of signed_sections] test_knot_simps(2) [of signed_sections]
    test_knot_simps(4) [of signed_sections "[11]" 1 1]
  have "map server (fst (knot_resolver_resolve (test_sys (second_answers test_datagram))
      (test_knot signed_sections) (Some (test_resolver True)) (Some ''example.com'') 1 1)) =
      takeWhile (\<lambda>ip. \<not> transport_ok (test_sys (second_answers test_datagram)) [11] ip)
        root_server_names @
      take 1 (dropWhile
        (\<lambda>ip. \<not> transport_ok (test_sys (second_answers test_datagram)) [11] ip)
        root_server_names)"
    using root_server_iteration [OF h, of "test_sys (second_answers test_datagram)"
        "test_resolver True"]
    by (simp only: test_knot_simps(6))
  then show ?thesis
    by (simp add: transport_second root_server_names_def root_servers_def)
qed

subsection \<open>C5: absent context, absent or empty name\<close>




subsection \<open>C6: the OPT record does not depend on the DNSSEC flag\<close>



subsection \<open>C7: the receive timeout\<close>

text \<open>
  Claim C7: two resolvers that differ only in \<^verbatim>\<open>timeout_ms\<close> give the same attempts and
  the same result. The only receive timeout ever set is 5 seconds, and it is set in every
  attempt whose socket could be opened. Every attempt makes its system calls in one of
  three fixed sequences, in which the timeout is set right after the socket is opened; so
  every \<^verbatim>\<open>recvfrom\<close> comes after the socket was opened, the timeout of 5 seconds set and the
  query sent, in this order and with nothing in between.
\<close>

theorem fixed_receive_timeout:
  "knot_resolver_resolve S L (Some (r\<lparr>timeout_ms := t\<rparr>)) qname qtype qclass =
     knot_resolver_resolve S L (Some r) qname qtype qclass \<and>
   (\<forall>a tv. a \<in> set (fst (knot_resolver_resolve S L (Some r) qname qtype qclass)) \<longrightarrow>
      Setsockopt_RCVTIMEO tv \<in> set (syscalls a) \<longrightarrow> tv = \<lparr>tv_sec = 5, tv_usec = 0\<rparr>) \<and>
   (\<forall>a. a \<in> set (fst (knot_resolver_resolve S L (Some r) qname qtype qclass)) \<longrightarrow>
      syscalls a \<noteq> [Socket] \<longrightarrow>
      Setsockopt_RCVTIMEO \<lparr>tv_sec = 5, tv_usec = 0\<rparr> \<in> set (syscalls a)) \<and>
   (\<forall>a. a \<in> set (fst (knot_resolver_resolve S L (Some r) qname qtype qclass)) \<longrightarrow>
      (\<exists>q. syscalls a = [Socket] \<or>
           syscalls a = [Socket, Setsockopt_RCVTIMEO \<lparr>tv_sec = 5, tv_usec = 0\<rparr>,
                         Sendto (server a) 53 q, Close] \<or>
           syscalls a = [Socket, Setsockopt_RCVTIMEO \<lparr>tv_sec = 5, tv_usec = 0\<rparr>,
                         Sendto (server a) 53 q, Recvfrom 4096, Close])) \<and>
   (\<forall>a pre n post.
      a \<in> set (fst (knot_resolver_resolve S L (Some r) qname qtype qclass)) \<longrightarrow>
      syscalls a = pre @ Recvfrom n # post \<longrightarrow>
      (\<exists>ip port q. pre = [Socket, Setsockopt_RCVTIMEO \<lparr>tv_sec = 5, tv_usec = 0\<rparr>,
                            Sendto ip port q]))"
proof (intro conjI allI impI)
  show "knot_resolver_resolve S L (Some (r\<lparr>timeout_ms := t\<rparr>)) qname qtype qclass =
     knot_resolver_resolve S L (Some r) qname qtype qclass"
    by (rule resolve_timeout_ms)
next
  fix a tv
  assume "a \<in> set (fst (knot_resolver_resolve S L (Some r) qname qtype qclass))"
    and "Setsockopt_RCVTIMEO tv \<in> set (syscalls a)"
  with resolve_attempt_syscalls [of a S L "Some r" qname qtype qclass]
  show "tv = \<lparr>tv_sec = 5, tv_usec = 0\<rparr>" by auto
next
  fix a
  assume "a \<in> set (fst (knot_resolver_resolve S L (Some r) qname qtype qclass))"
    and "syscalls a \<noteq> [Socket]"
  with resolve_attempt_syscalls [of a S L "Some r" qname qtype qclass]
  show "Setsockopt_RCVTIMEO \<lparr>tv_sec = 5, tv_usec = 0\<rparr> \<in> set (syscalls a)" by auto
next
  fix a
  assume "a \<in> set (fst (knot_resolver_resolve S L (Some r) qname qtype qclass))"
  from resolve_attempt_syscalls [OF this]
  show "\<exists>q. syscalls a = [Socket] \<or>
           syscalls a = [Socket, Setsockopt_RCVTIMEO \<lparr>tv_sec = 5, tv_usec = 0\<rparr>,
                         Sendto (server a) 53 q, Close] \<or>
           syscalls a = [Socket, Setsockopt_RCVTIMEO \<lparr>tv_sec = 5, tv_usec = 0\<rparr>,
                         Sendto (server a) 53 q, Recvfrom 4096, Close]"
    by auto
next
  fix a pre n post
  assume "a \<in> set (fst (knot_resolver_resolve S L (Some r) qname qtype qclass))"
    and split: "syscalls a = pre @ Recvfrom n # post"
  from resolve_attempt_syscalls [OF this(1)] obtain q where
    "syscalls a = [Socket] \<or>
     syscalls a = [Socket, Setsockopt_RCVTIMEO \<lparr>tv_sec = 5, tv_usec = 0\<rparr>,
                   Sendto (server a) 53 q, Close] \<or>
     syscalls a = [Socket, Setsockopt_RCVTIMEO \<lparr>tv_sec = 5, tv_usec = 0\<rparr>,
                   Sendto (server a) 53 q, Recvfrom 4096, Close]"
    by auto
  with split show "\<exists>ip port q. pre = [Socket, Setsockopt_RCVTIMEO \<lparr>tv_sec = 5, tv_usec = 0\<rparr>,
                            Sendto ip port q]"
    by (auto simp add: append_eq_Cons_conv Cons_eq_append_conv)
qed

text \<open>
  A resolver configured with 1000 ms and one configured with 30000 ms behave alike; the one
  attempt made sets the 5 seconds before it sends and receives.
\<close>

theorem fixed_receive_timeout_witness:
  "knot_resolver_resolve (test_sys (answering_network test_datagram)) (test_knot signed_sections)
     (Some ((test_resolver True)\<lparr>timeout_ms := 30000\<rparr>)) (Some ''example.com'') 1 1 =
   knot_resolver_resolve (test_sys (answering_network test_datagram)) (test_knot signed_sections)
     (Some (test_resolver True)) (Some ''example.com'') 1 1 \<and>
   map syscalls (fst (knot_resolver_resolve (test_sys (answering_network test_datagram))
        (test_knot signed_sections) (Some (test_resolver True)) (Some ''example.com'') 1 1)) =
   [[Socket, Setsockopt_RCVTIMEO \<lparr>tv_sec = 5, tv_usec = 0\<rparr>,
     Sendto ''198.41.0.4'' 53 [11], Recvfrom 4096, Close]]"
  using fixed_receive_timeout [where S = "test_sys (answering_network test_datagram)"
      and L = "test_knot signed_sections" and r = "test_resolver True" and t = 30000
      and qname = "Some ''example.com''" and qtype = 1 and qclass = 1]
  by (simp add: resolve_answering)

subsection \<open>C8: the bogus flag\<close>

text \<open>
  Claim C8: whatever the resolver, the name and the environment, a returned result has
  \<^verbatim>\<open>bogus = false\<close>.
\<close>

theorem bogus_never_set:
  assumes "snd (knot_resolver_resolve S L resolver qname qtype qclass) = Some r"
  shows "\<not> bogus r"
proof -
  from resolve_result_cases [of S L resolver qname qtype qclass] assms
  consider m where "create_error_result S (Some m) = Some r"
    | r' response n where "interpret_response S L r' response n = Some r"
    by auto
  then show ?thesis
  proof cases
    case 1
    then show ?thesis by (simp add: create_error_result_Some)
  next
    case 2
    from interpret_response_Some [OF this] show ?thesis
      by (auto simp add: create_error_result_Some)
  qed
qed

theorem bogus_never_set_witness:
  "snd (knot_resolver_resolve (test_sys (answering_network test_datagram))
      (test_knot signed_sections) (Some (test_resolver True)) (Some ''example.com'') 1 1) =
   Some \<lparr>wire = Some test_datagram, wire_size = 12, rcode = 3, secure = True,
         bogus = False, error_msg = None\<rparr> \<and>
   \<not> bogus \<lparr>wire = Some test_datagram, wire_size = 12, rcode = 3, secure = True,
            bogus = False, error_msg = None\<rparr>"
proof -
  have res: "snd (knot_resolver_resolve (test_sys (answering_network test_datagram))
      (test_knot signed_sections) (Some (test_resolver True)) (Some ''example.com'') 1 1) =
   Some \<lparr>wire = Some test_datagram, wire_size = 12, rcode = 3, secure = True,
         bogus = False, error_msg = None\<rparr>"
    by (simp add: resolve_signed)
  from res bogus_never_set [OF res] show ?thesis by (intro conjI)
qed

subsection \<open>C10: freeing a result\<close>

text \<open>
  Claim C10: \<^verbatim>\<open>knot_resolve_result_free(NULL)\<close> frees nothing. For a result that is not
  \<^verbatim>\<open>NULL\<close> the wire buffer is freed exactly when it is present, the error message
  exactly when it is present, nothing is freed twice, and the structure itself is freed
  last.
\<close>

theorem result_free:
  "knot_resolve_result_free None = [] \<and>
   (Wire_buffer w \<in> set (knot_resolve_result_free (Some r)) \<longleftrightarrow> wire r = Some w) \<and>
   (Error_message m \<in> set (knot_resolve_result_free (Some r)) \<longleftrightarrow> error_msg r = Some m) \<and>
   last (knot_resolve_result_free (Some r)) = Result_struct \<and>
   distinct (knot_resolve_result_free (Some r)) \<and>
   length (knot_resolve_result_free (Some r)) =
     (if wire r = None then 0 else 1) + (if error_msg r = None then 0 else 1) + 1"
  by (auto simp add: knot_resolve_result_free_def split: option.splits)

theorem result_free_witness:
  "knot_resolve_result_free
     (Some \<lparr>wire = None, wire_size = 0, rcode = 2, secure = False, bogus = False,
            error_msg = Some ''Invalid parameters''\<rparr>) =
   [Error_message ''Invalid parameters'', Result_struct] \<and>
   knot_resolve_result_free
     (Some \<lparr>wire = Some test_datagram, wire_size = 12, rcode = 3, secure = True,
            bogus = False, error_msg = None\<rparr>) =
   [Wire_buffer test_datagram, Result_struct] \<and>
   knot_resolve_result_free None = []"
  using result_free [of test_datagram "\<lparr>wire = Some test_datagram, wire_size = 12, rcode = 3,
      secure = True, bogus = False, error_msg = None\<rparr>" "[]"]
  by (simp add: knot_resolve_result_free_def)

end
